theory Spec2Isabelle
  imports
    Main
    "HOL-Library.Multiset"
    "HOL-Library.Char_ord"
    "HOL-Library.List_Lexorder"
    "HOL-Library.Product_Lexorder"
    "HOL-Library.Code_Target_Nat"
begin

section \<open>Python values, strings and exceptions\<close>

text \<open>
  The module \<^verbatim>\<open>spreadsheet_compressor/compressor.py\<close> is embedded function by
  function.  A Python \<^verbatim>\<open>str\<close> is a \<^typ>\<open>string\<close>; the \<^typ>\<open>char\<close> with code \<open>n\<close>
  stands for the code point \<open>n\<close>, so the strings of the model are the Python strings
  over the code points below 256.  Every exception the code can raise is a value of
  \<open>error\<close>, and a function that can raise returns \<open>error + 'a\<close>.
\<close>

datatype error =
    ValueError
  | IndexError
  | RegexError
  | SpreadsheetParsingError

text \<open>\<^verbatim>\<open>str.isalpha\<close>, \<^verbatim>\<open>str.isdigit\<close> and \<^verbatim>\<open>str.isspace\<close> on one code point below 256.
  Characters compare by code point.  Python's \<^verbatim>\<open>isdigit\<close> also accepts the superscript
  digits (B2, B3 and B9), which
  \<^verbatim>\<open>int()\<close> then rejects.\<close>

definition ascii_digit :: "char \<Rightarrow> bool" where
  "ascii_digit c = (CHR ''0'' \<le> c \<and> c \<le> CHR ''9'')"

definition ascii_upper :: "char \<Rightarrow> bool" where
  "ascii_upper c = (CHR ''A'' \<le> c \<and> c \<le> CHR ''Z'')"

definition ascii_lower :: "char \<Rightarrow> bool" where
  "ascii_lower c = (CHR ''a'' \<le> c \<and> c \<le> CHR ''z'')"

definition isalpha :: "char \<Rightarrow> bool" where
  "isalpha c =
     (ascii_upper c \<or> ascii_lower c \<or> c = CHR 0xAA \<or> c = CHR 0xB5 \<or> c = CHR 0xBA
      \<or> (CHR 0xC0 \<le> c \<and> c \<le> CHR 0xD6) \<or> (CHR 0xD8 \<le> c \<and> c \<le> CHR 0xF6)
      \<or> CHR 0xF8 \<le> c)"

definition isdigit :: "char \<Rightarrow> bool" where
  "isdigit c = (ascii_digit c \<or> c = CHR 0xB2 \<or> c = CHR 0xB3 \<or> c = CHR 0xB9)"

definition isspace :: "char \<Rightarrow> bool" where
  "isspace c =
     ((CHR 0x09 \<le> c \<and> c \<le> CHR 0x0D) \<or> (CHR 0x1C \<le> c \<and> c \<le> CHR 0x20)
      \<or> c = CHR 0x85 \<or> c = CHR 0xA0)"

text \<open>\<^verbatim>\<open>str.strip()\<close> removes the leading and the trailing whitespace.\<close>

definition strip :: "string \<Rightarrow> string" where
  "strip s = rev (dropWhile isspace (rev (dropWhile isspace s)))"

text \<open>\<^verbatim>\<open>str(n)\<close> of a natural number and of an integer: the decimal digits.\<close>

fun str_nat :: "nat \<Rightarrow> string" where
  "str_nat n =
     (if n < 10 then [''0123456789'' ! n]
      else str_nat (n div 10) @ [''0123456789'' ! (n mod 10)])"

declare str_nat.simps [simp del]

definition str_int :: "int \<Rightarrow> string" where
  "str_int i = (if i < 0 then CHR ''-'' # str_nat (nat (- i)) else str_nat (nat i))"

text \<open>\<^verbatim>\<open>int(s)\<close> on a string of \<^verbatim>\<open>isdigit\<close> characters: the decimal value when every
  character is an ASCII digit (the string is not empty where the code calls it),
  \<^verbatim>\<open>ValueError\<close> otherwise.\<close>

definition digit_value :: "char \<Rightarrow> nat" where
  "digit_value c = (of_char c :: nat) - 48"

definition py_int :: "string \<Rightarrow> error + nat" where
  "py_int s =
     (if s \<noteq> [] \<and> list_all ascii_digit s
      then Inr (foldl (\<lambda>acc c. acc * 10 + digit_value c) 0 s)
      else Inl ValueError)"

section \<open>The column functions of openpyxl\<close>

text \<open>
  \<^verbatim>\<open>openpyxl.utils.cell.column_index_from_string\<close> and \<^verbatim>\<open>get_column_letter\<close> are
  library functions.  They are modelled by their contract: a column name is one to three
  ASCII letters (lower case is folded to upper case), read in base 26 with
  \<open>A = 1\<close>; the column indices are \<open>1 .. 18278\<close> (\<open>A .. ZZZ\<close>); any other argument
  raises \<^verbatim>\<open>ValueError\<close>.
\<close>

definition letter_value :: "char \<Rightarrow> nat" where
  "letter_value c =
     (if ascii_lower c then (of_char c :: nat) - 96 else (of_char c :: nat) - 64)"

definition column_index_from_string :: "string \<Rightarrow> error + nat" where
  "column_index_from_string col =
     (if col = [] \<or> 3 < length col \<or> \<not> list_all (\<lambda>c. ascii_upper c \<or> ascii_lower c) col
      then Inl ValueError
      else Inr (foldl (\<lambda>acc c. acc * 26 + letter_value c) 0 col))"

fun column_letters :: "nat \<Rightarrow> string" where
  "column_letters n =
     (if n = 0 then []
      else column_letters ((n - 1) div 26) @ [''ABCDEFGHIJKLMNOPQRSTUVWXYZ'' ! ((n - 1) mod 26)])"

declare column_letters.simps [simp del]

definition get_column_letter :: "nat \<Rightarrow> error + string" where
  "get_column_letter col_idx =
     (if 1 \<le> col_idx \<and> col_idx \<le> 18278 then Inr (column_letters col_idx)
      else Inl ValueError)"

section \<open>The range compressor\<close>

text \<open>
  \<^verbatim>\<open>compress_cell_references\<close> is declared on a list of \<^verbatim>\<open>(sheet, cell)\<close> pairs, and
  \<^verbatim>\<open>parse_ods\<close> and \<^verbatim>\<open>parse_csv\<close> also call it on lists of strings.  Python decides at
  run time what \<^verbatim>\<open>x[0]\<close>, \<^verbatim>\<open>x[1]\<close> and \<^verbatim>\<open>sheet, cell = x\<close> do, so a reference is
  either a pair of strings or one string: indexing a string gives the one-character
  string at that position (\<^verbatim>\<open>IndexError\<close> beyond its end), and unpacking a string
  into two names works only when the string has two characters (\<^verbatim>\<open>ValueError\<close>
  otherwise).
\<close>

datatype reference = RefPair string string | RefStr string

definition ref_item0 :: "reference \<Rightarrow> error + string" where
  "ref_item0 x =
     (case x of
        RefPair sheet cell \<Rightarrow> Inr sheet
      | RefStr s \<Rightarrow> (case s of [] \<Rightarrow> Inl IndexError | a # _ \<Rightarrow> Inr [a]))"

definition ref_item1 :: "reference \<Rightarrow> error + string" where
  "ref_item1 x =
     (case x of
        RefPair sheet cell \<Rightarrow> Inr cell
      | RefStr s \<Rightarrow> (case s of a # b # _ \<Rightarrow> Inr [b] | _ \<Rightarrow> Inl IndexError))"

definition ref_unpack :: "reference \<Rightarrow> error + string \<times> string" where
  "ref_unpack x =
     (case x of
        RefPair sheet cell \<Rightarrow> Inr (sheet, cell)
      | RefStr s \<Rightarrow> (case s of [a, b] \<Rightarrow> Inr ([a], [b]) | _ \<Rightarrow> Inl ValueError))"

text \<open>\<^verbatim>\<open>_cell_to_tuple\<close>: the alphabetic characters of the reference, and the number
  its digit characters spell (0 when there is none).\<close>

definition cell_to_tuple :: "string \<Rightarrow> error + string \<times> nat" where
  "cell_to_tuple cell_ref =
     (let col_str = filter isalpha cell_ref;
          row_str = filter isdigit cell_ref
      in if row_str = [] then Inr (col_str, 0)
         else (case py_int row_str of
                 Inl e \<Rightarrow> Inl e
               | Inr row \<Rightarrow> Inr (col_str, row)))"

text \<open>The sort key of line 161: \<^verbatim>\<open>(sheet, column number, row number)\<close>.\<close>

definition ref_key :: "reference \<Rightarrow> error + string \<times> nat \<times> nat" where
  "ref_key x =
     (case ref_item0 x of
        Inl e \<Rightarrow> Inl e
      | Inr sheet \<Rightarrow>
          (case ref_item1 x of
             Inl e \<Rightarrow> Inl e
           | Inr cell \<Rightarrow>
               (case cell_to_tuple cell of
                  Inl e \<Rightarrow> Inl e
                | Inr (col, row) \<Rightarrow>
                    (case column_index_from_string col of
                       Inl e \<Rightarrow> Inl e
                     | Inr col_idx \<Rightarrow> Inr (sheet, col_idx, row)))))"

text \<open>Applying a function that may raise to every element, in order; the first
  exception ends the traversal.\<close>

fun try_map :: "('a \<Rightarrow> error + 'b) \<Rightarrow> 'a list \<Rightarrow> error + 'b list" where
  "try_map f [] = Inr []"
| "try_map f (x # xs) =
     (case f x of
        Inl e \<Rightarrow> Inl e
      | Inr y \<Rightarrow> (case try_map f xs of Inl e \<Rightarrow> Inl e | Inr ys \<Rightarrow> Inr (y # ys)))"

text \<open>\<^verbatim>\<open>sorted(references, key=...)\<close>: every key is computed first, then the list is
  sorted by key, stably.  Strings compare by code point, tuples lexicographically.\<close>

definition sorted_by_key :: "reference list \<Rightarrow> error + reference list" where
  "sorted_by_key references =
     (case try_map ref_key references of
        Inl e \<Rightarrow> Inl e
      | Inr keys \<Rightarrow> Inr (map snd (sort_key fst (zip keys references))))"

definition format_range :: "string \<Rightarrow> string \<Rightarrow> string \<Rightarrow> string" where
  "format_range start_sheet start_cell end_cell =
     (if start_cell = end_cell then start_sheet @ ''!'' @ start_cell
      else start_sheet @ ''!'' @ start_cell @ '':'' @ end_cell)"

text \<open>The test of lines 189 to 193, with Python's short-circuit evaluation: the column
  indices are computed only when the first disjunct fails and the rows are equal.\<close>

fun extends_range :: "string \<times> nat \<Rightarrow> string \<times> nat \<Rightarrow> error + bool" where
  "extends_range (end_col, end_row) (current_col, current_row) =
     (if current_col = end_col \<and> current_row = end_row + 1 then Inr True
      else if current_row = end_row then
        (case column_index_from_string current_col of
           Inl e \<Rightarrow> Inl e
         | Inr c \<Rightarrow>
             (case column_index_from_string end_col of
                Inl e \<Rightarrow> Inl e
              | Inr d \<Rightarrow> Inr (c = d + 1)))
      else Inr False)"

text \<open>The loop of lines 182 to 220.  Its state is the list of ranges flushed so far
  and the open range: \<^verbatim>\<open>current_range_start_sheet\<close>, \<^verbatim>\<open>current_range_start_cell\<close>
  and \<^verbatim>\<open>current_range_end_cell\<close> (\<^verbatim>\<open>current_range_end_sheet\<close> is written and never
  read).\<close>

type_synonym scan_state = "string list \<times> string \<times> string \<times> string"

fun scan :: "scan_state \<Rightarrow> reference list \<Rightarrow> error + scan_state" where
  "scan st [] = Inr st"
| "scan (ranges, start_sheet, start_cell, end_cell) (r # rs) =
     (case ref_unpack r of
        Inl e \<Rightarrow> Inl e
      | Inr (sheet, cell) \<Rightarrow>
     (case cell_to_tuple start_cell of
        Inl e \<Rightarrow> Inl e
      | Inr start_pos \<Rightarrow>
     (case cell_to_tuple end_cell of
        Inl e \<Rightarrow> Inl e
      | Inr end_pos \<Rightarrow>
     (case cell_to_tuple cell of
        Inl e \<Rightarrow> Inl e
      | Inr current \<Rightarrow>
          if sheet = start_sheet then
            (case extends_range end_pos current of
               Inl e \<Rightarrow> Inl e
             | Inr True \<Rightarrow> scan (ranges, start_sheet, start_cell, cell) rs
             | Inr False \<Rightarrow>
                 scan (ranges @ [format_range start_sheet start_cell end_cell],
                       sheet, cell, cell) rs)
          else
            scan (ranges @ [format_range start_sheet start_cell end_cell],
                  sheet, cell, cell) rs))))"

text \<open>The body of the \<^verbatim>\<open>try\<close> block (lines 158 to 230).\<close>

definition compress_try :: "reference list \<Rightarrow> error + string list" where
  "compress_try references =
     (case sorted_by_key references of
        Inl e \<Rightarrow> Inl e
      | Inr sorted_refs \<Rightarrow>
          (case sorted_refs of
             [] \<Rightarrow> Inr []
           | first # rest \<Rightarrow>
               (case ref_unpack first of
                  Inl e \<Rightarrow> Inl e
                | Inr (sheet, cell) \<Rightarrow>
                    (case scan ([], sheet, cell, cell) rest of
                       Inl e \<Rightarrow> Inl e
                     | Inr (ranges, start_sheet, start_cell, end_cell) \<Rightarrow>
                         Inr (ranges @ [format_range start_sheet start_cell end_cell])))))"

text \<open>The \<^verbatim>\<open>except\<close> handler (line 235): one \<^verbatim>\<open>"{ref[0]}!{ref[1]}"\<close> per reference,
  in the order of the argument.  Indexing can raise here too, and then the exception
  leaves the compressor.\<close>

definition fallback_item :: "reference \<Rightarrow> error + string" where
  "fallback_item x =
     (case ref_item0 x of
        Inl e \<Rightarrow> Inl e
      | Inr a \<Rightarrow> (case ref_item1 x of Inl e \<Rightarrow> Inl e | Inr b \<Rightarrow> Inr (a @ ''!'' @ b)))"

definition compress_cell_references :: "reference list \<Rightarrow> error + string list" where
  "compress_cell_references references =
     (if references = [] then Inr []
      else (case compress_try references of
              Inr ranges \<Rightarrow> Inr ranges
            | Inl e \<Rightarrow> try_map fallback_item references))"

section \<open>Regular expressions\<close>

text \<open>
  The classifier calls \<^verbatim>\<open>re.match(pattern, value_str)\<close>.  A pattern is represented by
  what the \<^verbatim>\<open>re\<close> module makes of its source: a regular expression over character
  classes, or \<open>Malformed\<close> when the source does not compile (\<^verbatim>\<open>re.match\<close> then
  raises \<^verbatim>\<open>re.error\<close>).  \<open>Bol\<close> is \<^verbatim>\<open>^\<close> and \<open>Eol\<close> is \<^verbatim>\<open>$\<close>, which also matches
  before a final newline.  \<open>ends r (b, s)\<close> lists, in the order the backtracking
  matcher tries them, the states in which a match of \<open>r\<close> started on the input \<open>s\<close> can
  end; \<open>b\<close> says that no character has been read yet.
\<close>

datatype regex =
    Eps
  | Bol
  | Eol
  | Cls "(char \<times> char) list"
  | NCls "(char \<times> char) list"
  | Seq regex regex
  | Alt regex regex
  | Star regex

datatype pattern = Compiled regex | Malformed

definition in_ranges :: "char \<Rightarrow> (char \<times> char) list \<Rightarrow> bool" where
  "in_ranges c rs = list_ex (\<lambda>(lo, hi). lo \<le> c \<and> c \<le> hi) rs"

fun ends :: "regex \<Rightarrow> bool \<times> string \<Rightarrow> (bool \<times> string) list" where
  "ends Eps st = [st]"
| "ends Bol st = (if fst st then [st] else [])"
| "ends Eol st = (if snd st = [] \<or> snd st = [CHR 0x0A] then [st] else [])"
| "ends (Cls rs) st =
     (case snd st of
        [] \<Rightarrow> []
      | c # cs \<Rightarrow> if in_ranges c rs then [(False, cs)] else [])"
| "ends (NCls rs) st =
     (case snd st of
        [] \<Rightarrow> []
      | c # cs \<Rightarrow> if in_ranges c rs then [] else [(False, cs)])"
| "ends (Seq r1 r2) st = concat (map (ends r2) (ends r1 st))"
| "ends (Alt r1 r2) st = ends r1 st @ ends r2 st"
| "ends (Star r) st =
     concat (map (\<lambda>st'. if length (snd st') < length (snd st) then ends (Star r) st' else [])
                 (ends r st)) @ [st]"

declare ends.simps [simp del]

definition re_match :: "regex \<Rightarrow> string \<Rightarrow> bool" where
  "re_match r s = (ends r (True, s) \<noteq> [])"

text \<open>The derived forms \<^verbatim>\<open>r+\<close>, \<^verbatim>\<open>r?\<close>, \<^verbatim>\<open>r{n}\<close>, \<^verbatim>\<open>r{n,}\<close>, one character, a
  literal string, a sequence and a choice.\<close>

definition Plus :: "regex \<Rightarrow> regex" where
  "Plus r = Seq r (Star r)"

definition Opt :: "regex \<Rightarrow> regex" where
  "Opt r = Alt r Eps"

fun Times :: "nat \<Rightarrow> regex \<Rightarrow> regex" where
  "Times 0 r = Eps"
| "Times (Suc n) r = Seq r (Times n r)"

definition AtLeast :: "nat \<Rightarrow> regex \<Rightarrow> regex" where
  "AtLeast n r = Seq (Times n r) (Star r)"

definition Chr :: "char \<Rightarrow> regex" where
  "Chr c = Cls [(c, c)]"

definition Str :: "string \<Rightarrow> regex" where
  "Str s = foldr (\<lambda>c r. Seq (Chr c) r) s Eps"

definition Seqs :: "regex list \<Rightarrow> regex" where
  "Seqs rs = foldr Seq rs Eps"

fun Alts :: "regex list \<Rightarrow> regex" where
  "Alts [] = NCls [(CHR 0x00, CHR 0xFF)]"
| "Alts [r] = r"
| "Alts (r # rs) = Alt r (Alts rs)"

text \<open>\<^verbatim>\<open>\d\<close>, \<^verbatim>\<open>\s\<close> and \<^verbatim>\<open>\S\<close> on the code points below 256.\<close>

definition digit :: regex where
  "digit = Cls [(CHR ''0'', CHR ''9'')]"

definition space_ranges :: "(char \<times> char) list" where
  "space_ranges =
     [(CHR 0x09, CHR 0x0D), (CHR 0x1C, CHR 0x20), (CHR 0x85, CHR 0x85), (CHR 0xA0, CHR 0xA0)]"

definition space :: regex where
  "space = Cls space_ranges"

definition nonspace :: regex where
  "nonspace = NCls space_ranges"

definition alnum_ranges :: "(char \<times> char) list" where
  "alnum_ranges = [(CHR ''a'', CHR ''z''), (CHR ''A'', CHR ''Z''), (CHR ''0'', CHR ''9'')]"

definition letter_ranges :: "(char \<times> char) list" where
  "letter_ranges = [(CHR ''a'', CHR ''z''), (CHR ''A'', CHR ''Z'')]"

definition dot :: "char \<times> char" where
  "dot = (CHR ''.'', CHR ''.'')"

text \<open>The number \<^verbatim>\<open>-?\d+\.?\d*\<close> shared by three of the default patterns, and the
  currency signs of the class in the currency pattern: the dollar, pound (A3) and yen
  (A5) signs; the euro sign, the fourth in the source, is code point 8364 and no string
  of the model holds it.\<close>

definition decimal_number :: regex where
  "decimal_number = Seqs [Opt (Chr CHR ''-''), Plus digit, Opt (Chr CHR ''.''), Star digit]"

definition currency_sign :: regex where
  "currency_sign =
     Cls [(CHR ''$'', CHR ''$''), (CHR 0xA3, CHR 0xA3), (CHR 0xA5, CHR 0xA5)]"

text \<open>The dictionary \<^verbatim>\<open>default_patterns\<close> of lines 61 to 70, in its insertion order.
  \<^verbatim>\<open>
  url         ^(https?:\/\/|www\.|ftp:\/\/|file:\/\/)[a-zA-Z0-9\-\.]+\.[a-zA-Z]{2,}(:[0-9]+)?(\/\S*)?$
  year        ^(1|2)\d{3}$
  integer     ^-?\d+$
  percentage  ^-?\d+\.?\d*%$
  scientific  ^-?\d+\.?\d*[eE][+-]?\d+$
  float       ^-?\d*\.\d+$
  currency    ^[$\u20ac\u00a3\u00a5]\s*-?\d+\.?\d*$|^-?\d+\.?\d*\s*[$\u20ac\u00a3\u00a5]$
  email       ^[a-zA-Z0-9._%+-]+@[a-zA-Z0-9.-]+\.[a-zA-Z]{2,}$
  \<close>\<close>

definition url_regex :: regex where
  "url_regex =
     Seqs [Bol,
           Alts [Seqs [Str ''http'', Opt (Chr CHR ''s''), Str ''://''],
                 Str ''www.'', Str ''ftp://'', Str ''file://''],
           Plus (Cls (alnum_ranges @ [(CHR ''-'', CHR ''-''), dot])),
           Chr CHR ''.'',
           AtLeast 2 (Cls letter_ranges),
           Opt (Seq (Chr CHR '':'') (Plus digit)),
           Opt (Seq (Chr CHR ''/'') (Star nonspace)),
           Eol]"

definition year_regex :: regex where
  "year_regex = Seqs [Bol, Alt (Chr CHR ''1'') (Chr CHR ''2''), Times 3 digit, Eol]"

definition integer_regex :: regex where
  "integer_regex = Seqs [Bol, Opt (Chr CHR ''-''), Plus digit, Eol]"

definition percentage_regex :: regex where
  "percentage_regex = Seqs [Bol, decimal_number, Chr CHR ''%'', Eol]"

definition scientific_regex :: regex where
  "scientific_regex =
     Seqs [Bol, decimal_number, Cls [(CHR ''e'', CHR ''e''), (CHR ''E'', CHR ''E'')],
           Opt (Cls [(CHR ''+'', CHR ''+''), (CHR ''-'', CHR ''-'')]), Plus digit, Eol]"

definition float_regex :: regex where
  "float_regex = Seqs [Bol, Opt (Chr CHR ''-''), Star digit, Chr CHR ''.'', Plus digit, Eol]"

definition currency_regex :: regex where
  "currency_regex =
     Alt (Seqs [Bol, currency_sign, Star space, decimal_number, Eol])
         (Seqs [Bol, decimal_number, Star space, currency_sign, Eol])"

definition email_regex :: regex where
  "email_regex =
     Seqs [Bol,
           Plus (Cls (alnum_ranges @ [dot, (CHR ''_'', CHR ''_''),
                   (CHR ''%'', CHR ''%''), (CHR ''+'', CHR ''+''),
                   (CHR ''-'', CHR ''-'')])),
           Chr CHR ''@'',
           Plus (Cls (alnum_ranges @ [dot, (CHR ''-'', CHR ''-'')])),
           Chr CHR ''.'',
           AtLeast 2 (Cls letter_ranges),
           Eol]"

definition default_patterns :: "(string \<times> pattern) list" where
  "default_patterns =
     [(''url'', Compiled url_regex),
      (''year'', Compiled year_regex),
      (''integer'', Compiled integer_regex),
      (''percentage'', Compiled percentage_regex),
      (''scientific'', Compiled scientific_regex),
      (''float'', Compiled float_regex),
      (''currency'', Compiled currency_regex),
      (''email'', Compiled email_regex)]"

section \<open>Date and time formats\<close>

text \<open>
  \<^verbatim>\<open>datetime.strptime(value_str, pattern)\<close> is a library call.  It turns the format
  into a regular expression (a directive becomes a named group, a run of whitespace
  becomes \<^verbatim>\<open>\s+\<close>, any other character stands for itself, letters in either case),
  takes the first match of the backtracking matcher, and raises \<^verbatim>\<open>ValueError\<close> when
  there is none, when the match does not reach the end of the data, or when the fields
  do not make a date and time.  A directive used twice gives a group name twice, and
  compiling the expression raises \<^verbatim>\<open>re.error\<close>.  The model covers the directives of
  the default formats, \<^verbatim>\<open>%Y %m %d %b %B %H %I %M %S %p\<close> and \<^verbatim>\<open>%%\<close>, in the C
  locale; any other character after \<^verbatim>\<open>%\<close> is treated as a bad directive
  (\<^verbatim>\<open>ValueError\<close>).
\<close>

datatype fmt_item = Directive char | Literal char | Whitespace

fun fmt_items :: "string \<Rightarrow> fmt_item list option" where
  "fmt_items [] = Some []"
| "fmt_items [c] =
     (if c = CHR ''%'' then None
      else if isspace c then Some [Whitespace]
      else Some [Literal c])"
| "fmt_items (c # d # cs) =
     (if c = CHR ''%'' then
        (if d = CHR ''%'' then map_option ((#) (Literal d)) (fmt_items cs)
         else if d \<in> set ''YmdbBHIMSp'' then map_option ((#) (Directive d)) (fmt_items cs)
         else None)
      else if isspace c then
        (if isspace d then fmt_items (d # cs)
         else map_option ((#) Whitespace) (fmt_items (d # cs)))
      else map_option ((#) (Literal c)) (fmt_items (d # cs)))"

declare fmt_items.simps [simp del]

definition directives_of :: "fmt_item list \<Rightarrow> char list" where
  "directives_of its = concat (map (\<lambda>it. case it of Directive d \<Rightarrow> [d] | _ \<Rightarrow> []) its)"

text \<open>Letters compare without case: the data is put in lower case where it is compared
  with a character of the format or with a name.  \<open>lower\<close> and \<open>upper\<close> are
  \<^verbatim>\<open>str.lower\<close> and \<^verbatim>\<open>str.upper\<close> on a code point below 256 whose other case is
  below 256 too (the sharp s, the micro sign and the y with diaeresis are left as they
  are).\<close>

definition upper_case_letters :: string where
  "upper_case_letters = ''ABCDEFGHIJKLMNOPQRSTUVWXYZ'' @
     [CHR 0xC0, CHR 0xC1, CHR 0xC2, CHR 0xC3, CHR 0xC4, CHR 0xC5, CHR 0xC6, CHR 0xC7,
      CHR 0xC8, CHR 0xC9, CHR 0xCA, CHR 0xCB, CHR 0xCC, CHR 0xCD, CHR 0xCE, CHR 0xCF,
      CHR 0xD0, CHR 0xD1, CHR 0xD2, CHR 0xD3, CHR 0xD4, CHR 0xD5, CHR 0xD6,
      CHR 0xD8, CHR 0xD9, CHR 0xDA, CHR 0xDB, CHR 0xDC, CHR 0xDD, CHR 0xDE]"

definition lower_case_letters :: string where
  "lower_case_letters = ''abcdefghijklmnopqrstuvwxyz'' @
     [CHR 0xE0, CHR 0xE1, CHR 0xE2, CHR 0xE3, CHR 0xE4, CHR 0xE5, CHR 0xE6, CHR 0xE7,
      CHR 0xE8, CHR 0xE9, CHR 0xEA, CHR 0xEB, CHR 0xEC, CHR 0xED, CHR 0xEE, CHR 0xEF,
      CHR 0xF0, CHR 0xF1, CHR 0xF2, CHR 0xF3, CHR 0xF4, CHR 0xF5, CHR 0xF6,
      CHR 0xF8, CHR 0xF9, CHR 0xFA, CHR 0xFB, CHR 0xFC, CHR 0xFD, CHR 0xFE]"

fun translate :: "string \<Rightarrow> string \<Rightarrow> char \<Rightarrow> char" where
  "translate (a # as) (b # bs) c = (if c = a then b else translate as bs c)"
| "translate _ _ c = c"

definition lower :: "char \<Rightarrow> char" where
  "lower c = translate upper_case_letters lower_case_letters c"

definition upper :: "char \<Rightarrow> char" where
  "upper c = translate lower_case_letters upper_case_letters c"

definition month_abbreviations :: "string list" where
  "month_abbreviations =
     [''jan'', ''feb'', ''mar'', ''apr'', ''may'', ''jun'',
      ''jul'', ''aug'', ''sep'', ''oct'', ''nov'', ''dec'']"

definition month_names :: "string list" where
  "month_names =
     [''january'', ''february'', ''march'', ''april'', ''may'', ''june'',
      ''july'', ''august'', ''september'', ''october'', ''november'', ''december'']"

text \<open>The choices of \<^verbatim>\<open>%B\<close> are tried longest first, as \<^verbatim>\<open>_strptime\<close> orders
  them (a stable sort by decreasing length; the abbreviations all have three letters).\<close>

definition month_names_longest_first :: "string list" where
  "month_names_longest_first =
     [''september'', ''february'', ''november'', ''december'', ''january'', ''october'',
      ''august'', ''march'', ''april'', ''june'', ''july'', ''may'']"

definition range1 :: "char \<Rightarrow> char \<Rightarrow> regex" where
  "range1 lo hi = Cls [(lo, hi)]"

text \<open>The expression of each directive, as \<^verbatim>\<open>_strptime.TimeRE\<close> defines it:
  \<^verbatim>\<open>
  %Y  \d\d\d\d                             %H  2[0-3]|[0-1]\d|\d
  %m  1[0-2]|0[1-9]|[1-9]                  %I  1[0-2]|0[1-9]|[1-9]
  %d  3[0-1]|[1-2]\d|0[1-9]|[1-9]| [1-9]   %M  [0-5]\d|\d
  %S  6[0-1]|[0-5]\d|\d                    %p  am|pm
  \<close>
  and the month names for \<^verbatim>\<open>%b\<close> and \<^verbatim>\<open>%B\<close>.  The names are matched against the data
  in lower case.\<close>

definition directive_regex :: "char \<Rightarrow> regex" where
  "directive_regex d =
     (if d = CHR ''Y'' then Times 4 digit
      else if d = CHR ''m'' \<or> d = CHR ''I'' then
        Alts [Seq (Chr CHR ''1'') (range1 CHR ''0'' CHR ''2''),
              Seq (Chr CHR ''0'') (range1 CHR ''1'' CHR ''9''),
              range1 CHR ''1'' CHR ''9'']
      else if d = CHR ''d'' then
        Alts [Seq (Chr CHR ''3'') (range1 CHR ''0'' CHR ''1''),
              Seq (range1 CHR ''1'' CHR ''2'') digit,
              Seq (Chr CHR ''0'') (range1 CHR ''1'' CHR ''9''),
              range1 CHR ''1'' CHR ''9'',
              Seq (Chr CHR '' '') (range1 CHR ''1'' CHR ''9'')]
      else if d = CHR ''H'' then
        Alts [Seq (Chr CHR ''2'') (range1 CHR ''0'' CHR ''3''),
              Seq (range1 CHR ''0'' CHR ''1'') digit,
              digit]
      else if d = CHR ''M'' then
        Alts [Seq (range1 CHR ''0'' CHR ''5'') digit, digit]
      else if d = CHR ''S'' then
        Alts [Seq (Chr CHR ''6'') (range1 CHR ''0'' CHR ''1''),
              Seq (range1 CHR ''0'' CHR ''5'') digit,
              digit]
      else if d = CHR ''p'' then Alts [Str ''am'', Str ''pm'']
      else if d = CHR ''b'' then Alts (map Str month_abbreviations)
      else Alts (map Str month_names_longest_first))"

text \<open>The fields that decide whether the parsed value is a date and time: year, month,
  day and second (hour and minute are in range by their expressions).  Without the
  directive the year is 1900, the month and the day are 1 and the second is 0.\<close>

type_synonym fields = "nat \<times> nat \<times> nat \<times> nat"

definition number_of :: "string \<Rightarrow> nat" where
  "number_of s = foldl (\<lambda>acc c. acc * 10 + digit_value c) 0 (filter ascii_digit s)"

definition index_of :: "string \<Rightarrow> string list \<Rightarrow> nat" where
  "index_of s names = length (takeWhile (\<lambda>n. n \<noteq> s) names)"

fun set_field :: "char \<Rightarrow> string \<Rightarrow> fields \<Rightarrow> fields" where
  "set_field d found (year, month, day, second) =
     (if d = CHR ''Y'' then (number_of found, month, day, second)
      else if d = CHR ''m'' then (year, number_of found, day, second)
      else if d = CHR ''b'' then
        (year, Suc (index_of found month_abbreviations), day, second)
      else if d = CHR ''B'' then
        (year, Suc (index_of found month_names), day, second)
      else if d = CHR ''d'' then (year, month, number_of found, second)
      else if d = CHR ''S'' then (year, month, day, number_of found)
      else (year, month, day, second))"

text \<open>One way a directive can match: the text found (in lower case) sets the field, and
  the data goes on after it.\<close>

definition directive_found :: "char \<Rightarrow> fields \<Rightarrow> string \<Rightarrow> bool \<times> string \<Rightarrow> fields \<times> string" where
  "directive_found d f s e =
     (set_field d (take (length s - length (snd e)) (map lower s)) f,
      drop (length s - length (snd e)) s)"

fun parse_item :: "fmt_item \<Rightarrow> fields \<times> string \<Rightarrow> (fields \<times> string) list" where
  "parse_item (Literal c) (f, s) =
     (case s of [] \<Rightarrow> [] | x # xs \<Rightarrow> if lower x = lower c then [(f, xs)] else [])"
| "parse_item Whitespace (f, s) = map (\<lambda>e. (f, snd e)) (ends (Plus space) (False, s))"
| "parse_item (Directive d) (f, s) =
     map (directive_found d f s) (ends (directive_regex d) (False, map lower s))"

fun parse_items :: "fmt_item list \<Rightarrow> fields \<times> string \<Rightarrow> (fields \<times> string) list" where
  "parse_items [] st = [st]"
| "parse_items (it # its) st = concat (map (parse_items its) (parse_item it st))"

definition leap_year :: "nat \<Rightarrow> bool" where
  "leap_year y = (y mod 4 = 0 \<and> (y mod 100 \<noteq> 0 \<or> y mod 400 = 0))"

definition days_in_month :: "nat \<Rightarrow> nat \<Rightarrow> nat" where
  "days_in_month y m =
     (if m = 2 then (if leap_year y then 29 else 28)
      else if m = 4 \<or> m = 6 \<or> m = 9 \<or> m = 11 then 30 else 31)"

fun valid_fields :: "fields \<Rightarrow> bool" where
  "valid_fields (year, month, day, second) =
     (1 \<le> year \<and> 1 \<le> month \<and> month \<le> 12 \<and> 1 \<le> day \<and> day \<le> days_in_month year month
      \<and> second \<le> 59)"

text \<open>\<open>strptime data fmt\<close> is \<open>Inr True\<close> when the call returns a value, \<open>Inr False\<close> when
  it raises \<^verbatim>\<open>ValueError\<close>, and \<open>Inl RegexError\<close> when it raises \<^verbatim>\<open>re.error\<close>.\<close>

definition strptime :: "string \<Rightarrow> string \<Rightarrow> error + bool" where
  "strptime data fmt =
     (case fmt_items fmt of
        None \<Rightarrow> Inr False
      | Some its \<Rightarrow>
          if \<not> distinct (directives_of its) then Inl RegexError
          else (case parse_items its ((1900, 1, 1, 0), data) of
                  [] \<Rightarrow> Inr False
                | (f, rest) # _ \<Rightarrow> Inr (rest = [] \<and> valid_fields f)))"

section \<open>The classifier\<close>

text \<open>
  The configuration that \<^verbatim>\<open>__init__\<close> stores: the pattern dictionary in its
  iteration order, and the two format lists.  A Python \<^verbatim>\<open>dict\<close> is an association
  list with distinct keys: storing under a key that is present replaces the value where
  it stands, storing under a new key appends.
\<close>

record config =
  patterns :: "(string \<times> pattern) list"
  date_patterns :: "string list"
  time_patterns :: "string list"

fun dict_set :: "('k \<times> 'v) list \<Rightarrow> 'k \<Rightarrow> 'v \<Rightarrow> ('k \<times> 'v) list" where
  "dict_set [] k v = [(k, v)]"
| "dict_set ((k', v') # d) k v =
     (if k' = k then (k, v) # d else (k', v') # dict_set d k v)"

text \<open>\<^verbatim>\<open>{**d1, **d2}\<close>: the items of \<open>d1\<close>, then those of \<open>d2\<close> stored one by one.\<close>

definition dict_merge :: "('k \<times> 'v) list \<Rightarrow> ('k \<times> 'v) list \<Rightarrow> ('k \<times> 'v) list" where
  "dict_merge d1 d2 = foldl (\<lambda>d kv. dict_set d (fst kv) (snd kv)) d1 d2"

definition default_date_patterns :: "string list" where
  "default_date_patterns =
     [''%Y-%m-%d'', ''%d-%m-%Y'', ''%m-%d-%Y'', ''%Y/%m/%d'', ''%d/%m/%Y'', ''%m/%d/%Y'',
      ''%d.%m.%Y'', ''%Y.%m.%d'', ''%b %d, %Y'', ''%B %d, %Y'', ''%d %b %Y'', ''%d %B %Y'']"

definition default_time_patterns :: "string list" where
  "default_time_patterns = [''%H:%M'', ''%H:%M:%S'', ''%I:%M %p'', ''%I:%M:%S %p'']"

text \<open>\<^verbatim>\<open>x or default\<close> takes the default when \<open>x\<close> is \<^verbatim>\<open>None\<close> and also when it is
  empty.\<close>

definition or_default :: "'a list option \<Rightarrow> 'a list \<Rightarrow> 'a list" where
  "or_default x d = (case x of None \<Rightarrow> d | Some l \<Rightarrow> if l = [] then d else l)"

definition init :: "(string \<times> pattern) list option \<Rightarrow> string list option \<Rightarrow>
    string list option \<Rightarrow> config" where
  "init custom_patterns custom_date_patterns custom_time_patterns =
     \<lparr> patterns = dict_merge default_patterns (or_default custom_patterns []),
       date_patterns = or_default custom_date_patterns default_date_patterns,
       time_patterns = or_default custom_time_patterns default_time_patterns \<rparr>"

definition default_config :: config where
  "default_config = init None None None"

text \<open>A cell value is absent, a string, an integer or a float.  The classifier and the
  grid walker use a float only through \<^verbatim>\<open>str(value)\<close>, so a float is represented by
  that rendering.  \<open>str_int\<close> renders every integer (the interpreter's limit on the
  digits of an integer conversion is not modelled).\<close>

datatype pyvalue = PNone | PStr string | PInt int | PFloat string

definition py_str :: "pyvalue \<Rightarrow> string" where
  "py_str v =
     (case v of
        PNone \<Rightarrow> ''None''
      | PStr s \<Rightarrow> s
      | PInt i \<Rightarrow> str_int i
      | PFloat rendering \<Rightarrow> rendering)"

text \<open>The loop of lines 115 to 117 over the pattern dictionary.\<close>

fun match_patterns :: "(string \<times> pattern) list \<Rightarrow> string \<Rightarrow> error + string option" where
  "match_patterns [] value_str = Inr None"
| "match_patterns ((pattern_name, p) # ps) value_str =
     (case p of
        Malformed \<Rightarrow> Inl RegexError
      | Compiled r \<Rightarrow>
          if re_match r value_str then Inr (Some (''['' @ map upper pattern_name @ '']''))
          else match_patterns ps value_str)"

text \<open>The loops of lines 120 to 133: the first format that parses the string.\<close>

fun match_formats :: "string list \<Rightarrow> string \<Rightarrow> error + bool" where
  "match_formats [] value_str = Inr False"
| "match_formats (fmt # fmts) value_str =
     (case strptime value_str fmt of
        Inl e \<Rightarrow> Inl e
      | Inr True \<Rightarrow> Inr True
      | Inr False \<Rightarrow> match_formats fmts value_str)"

definition recognize_data_type :: "config \<Rightarrow> pyvalue \<Rightarrow> error + string" where
  "recognize_data_type cfg v =
     (if v = PNone \<or> (case v of PStr s \<Rightarrow> strip s = [] | _ \<Rightarrow> False) then Inr ''Empty''
      else
        (let value_str = strip (py_str v) in
         case match_patterns (patterns cfg) value_str of
           Inl e \<Rightarrow> Inl e
         | Inr (Some tag) \<Rightarrow> Inr tag
         | Inr None \<Rightarrow>
             (case match_formats (date_patterns cfg) value_str of
                Inl e \<Rightarrow> Inl e
              | Inr True \<Rightarrow> Inr ''[DATE]''
              | Inr False \<Rightarrow>
                  (case match_formats (time_patterns cfg) value_str of
                     Inl e \<Rightarrow> Inl e
                   | Inr True \<Rightarrow> Inr ''[TIME]''
                   | Inr False \<Rightarrow> Inr ''Others''))))"

section \<open>The grid walker and the parsers\<close>

text \<open>
  \<^verbatim>\<open>grouped_data\<close> is a \<^verbatim>\<open>defaultdict(list)\<close>: \<open>dict_append\<close> is
  \<^verbatim>\<open>grouped_data[key].append(x)\<close> and \<open>dict_extend\<close> is
  \<^verbatim>\<open>grouped_data[key].extend(xs)\<close>; both create the key, at the end, when it is new.
\<close>

fun dict_extend :: "('k \<times> 'v list) list \<Rightarrow> 'k \<Rightarrow> 'v list \<Rightarrow> ('k \<times> 'v list) list" where
  "dict_extend [] k xs = [(k, xs)]"
| "dict_extend ((k', ys) # d) k xs =
     (if k' = k then (k', ys @ xs) # d else (k', ys) # dict_extend d k xs)"

definition dict_append :: "('k \<times> 'v list) list \<Rightarrow> 'k \<Rightarrow> 'v \<Rightarrow> ('k \<times> 'v list) list" where
  "dict_append d k x = dict_extend d k [x]"

type_synonym groups = "(string \<times> reference list) list"

text \<open>Lines 262 to 267 and 275 to 278: where the classified cell goes.  A cell that is
  \<^verbatim>\<open>"Others"\<close> is filed under \<^verbatim>\<open>str(value)\<close>, an \<^verbatim>\<open>"Empty"\<close> one is dropped.\<close>

definition file_cell :: "groups \<Rightarrow> string \<Rightarrow> pyvalue \<Rightarrow> string \<Rightarrow> string \<Rightarrow> groups" where
  "file_cell grouped_data dtype v sheet_name cell_ref =
     (if dtype = ''Others'' then dict_append grouped_data (py_str v) (RefPair sheet_name cell_ref)
      else if dtype \<noteq> ''Empty'' then dict_append grouped_data dtype (RefPair sheet_name cell_ref)
      else grouped_data)"

text \<open>A cell of a worksheet row carries its value and its coordinate
  (\<^verbatim>\<open>cell.value\<close>, \<^verbatim>\<open>cell.coordinate\<close>).\<close>

fun worksheet_cell :: "config \<Rightarrow> string \<Rightarrow> groups \<Rightarrow> pyvalue \<times> string \<Rightarrow> error + groups" where
  "worksheet_cell cfg sheet_name grouped_data (v, coordinate) =
     (if v \<noteq> PNone then
        (case recognize_data_type cfg v of
           Inl e \<Rightarrow> Inl e
         | Inr dtype \<Rightarrow> Inr (file_cell grouped_data dtype v sheet_name coordinate))
      else Inr grouped_data)"

text \<open>A cell of a list of lists gets its reference from its position:
  \<^verbatim>\<open>get_column_letter(col_idx)\<close> followed by the row number.\<close>

definition list_cell :: "config \<Rightarrow> string \<Rightarrow> nat \<Rightarrow> nat \<Rightarrow> groups \<Rightarrow> pyvalue \<Rightarrow> error + groups" where
  "list_cell cfg sheet_name row_idx col_idx grouped_data cell_value =
     (if cell_value \<noteq> PNone then
        (case recognize_data_type cfg cell_value of
           Inl e \<Rightarrow> Inl e
         | Inr dtype \<Rightarrow>
             (case get_column_letter col_idx of
                Inl e \<Rightarrow> Inl e
              | Inr col_letter \<Rightarrow>
                  Inr (file_cell grouped_data dtype cell_value sheet_name
                         (col_letter @ str_nat row_idx))))
      else Inr grouped_data)"

text \<open>A \<^verbatim>\<open>for\<close> loop over a list whose body may raise: the state is threaded through,
  and the first exception ends the loop.  \<open>try_fold_from\<close> is the loop over
  \<^verbatim>\<open>enumerate(xs, start=i)\<close>.\<close>

fun try_fold :: "('s \<Rightarrow> 'a \<Rightarrow> error + 's) \<Rightarrow> 's \<Rightarrow> 'a list \<Rightarrow> error + 's" where
  "try_fold f st [] = Inr st"
| "try_fold f st (x # xs) =
     (case f st x of Inl e \<Rightarrow> Inl e | Inr st' \<Rightarrow> try_fold f st' xs)"

fun try_fold_from :: "nat \<Rightarrow> (nat \<Rightarrow> 's \<Rightarrow> 'a \<Rightarrow> error + 's) \<Rightarrow> 's \<Rightarrow> 'a list \<Rightarrow> error + 's" where
  "try_fold_from i f st [] = Inr st"
| "try_fold_from i f st (x # xs) =
     (case f i st x of Inl e \<Rightarrow> Inl e | Inr st' \<Rightarrow> try_fold_from (Suc i) f st' xs)"

text \<open>Modelled from the spec: the dispatch on the shape of \<^verbatim>\<open>cells\<close>.  Line 257 tests
  \<^verbatim>\<open>cells\<close> against \<^verbatim>\<open>openpyxl.worksheet.worksheet.Worksheet.rows\<close>, which is declared
  outside the repository; the specification (sections 4.2 and 9) describes the test as a
  dispatch on the input shape, the rows of a worksheet, whose cells carry their own
  coordinate, or a list of lists.  The two shapes are the two constructors, and each
  selects the branch written for it.\<close>

datatype cells =
    WorksheetRows "(pyvalue \<times> string) list list"
  | ListOfLists "pyvalue list list"

definition group_cells :: "config \<Rightarrow> cells \<Rightarrow> string \<Rightarrow> error + groups" where
  "group_cells cfg cs sheet_name =
     (case cs of
        WorksheetRows rows \<Rightarrow>
          try_fold (\<lambda>g row. try_fold (worksheet_cell cfg sheet_name) g row) [] rows
      | ListOfLists rows \<Rightarrow>
          try_fold_from 1
            (\<lambda>row_idx g row. try_fold_from 1 (list_cell cfg sheet_name row_idx) g row) [] rows)"

text \<open>The dictionary comprehension
  \<^verbatim>\<open>{key: self.compress_cell_references(references) for key, references in ...}\<close>.\<close>

definition compress_groups :: "groups \<Rightarrow> error + (string \<times> string list) list" where
  "compress_groups grouped_data =
     try_map (\<lambda>kv. case compress_cell_references (snd kv) of
                      Inl e \<Rightarrow> Inl e
                    | Inr ranges \<Rightarrow> Inr (fst kv, ranges)) grouped_data"

definition process_cells :: "config \<Rightarrow> cells \<Rightarrow> string \<Rightarrow> error + (string \<times> string list) list" where
  "process_cells cfg cs sheet_name =
     (case group_cells cfg cs sheet_name of
        Inl e \<Rightarrow> Inl e
      | Inr grouped_data \<Rightarrow> compress_groups grouped_data)"

text \<open>\<^verbatim>\<open>parse_excel\<close> from the loaded workbook on: the sheets in the order of
  \<^verbatim>\<open>wb.sheetnames\<close>, each with its rows.  Any exception becomes
  \<^verbatim>\<open>SpreadsheetParsingError\<close>.\<close>

definition merge_sheet :: "(string \<times> string list) list \<Rightarrow> (string \<times> string list) list \<Rightarrow>
    (string \<times> string list) list" where
  "merge_sheet result sheet_data = foldl (\<lambda>res kv. dict_extend res (fst kv) (snd kv)) result sheet_data"

definition excel_sheet :: "config \<Rightarrow> (string \<times> string list) list \<Rightarrow>
    string \<times> (pyvalue \<times> string) list list \<Rightarrow> error + (string \<times> string list) list" where
  "excel_sheet cfg result sheet =
     (case process_cells cfg (WorksheetRows (snd sheet)) (fst sheet) of
        Inl e \<Rightarrow> Inl e
      | Inr sheet_data \<Rightarrow> Inr (merge_sheet result sheet_data))"

definition parse_excel :: "config \<Rightarrow> (string \<times> (pyvalue \<times> string) list list) list \<Rightarrow>
    error + (string \<times> string list) list" where
  "parse_excel cfg wb =
     (case try_fold (excel_sheet cfg) [] wb of
        Inl e \<Rightarrow> Inl SpreadsheetParsingError
      | Inr result \<Rightarrow> Inr result)"





section \<open>The notions of the specification\<close>

text \<open>
  Modelled from the spec: the cell locations a range expression stands for.  The
  repository has no function that reads a range expression back.  A singleton
  \<^verbatim>\<open>Sheet!Cell\<close> stands for that one cell; a run \<^verbatim>\<open>Sheet!Start:End\<close> stands for every
  cell of the rectangle between its two corners, listed column by column.  The sheet
  name ends at the last \<^verbatim>\<open>!\<close>.
\<close>

definition split_last :: "char \<Rightarrow> string \<Rightarrow> (string \<times> string) option" where
  "split_last c s =
     (if c \<in> set s
      then Some (rev (tl (dropWhile (\<lambda>x. x \<noteq> c) (rev s))), rev (takeWhile (\<lambda>x. x \<noteq> c) (rev s)))
      else None)"

definition cell_position :: "string \<Rightarrow> (nat \<times> nat) option" where
  "cell_position cell =
     (case cell_to_tuple cell of
        Inl e \<Rightarrow> None
      | Inr (col, row) \<Rightarrow>
          (case column_index_from_string col of
             Inl e \<Rightarrow> None
           | Inr col_idx \<Rightarrow> Some (col_idx, row)))"

definition range_cells :: "string \<Rightarrow> (string \<times> string) list" where
  "range_cells expr =
     (case split_last CHR ''!'' expr of
        None \<Rightarrow> []
      | Some (sheet, body) \<Rightarrow>
          if CHR '':'' \<in> set body then
            (case (cell_position (takeWhile (\<lambda>x. x \<noteq> CHR '':'') body),
                   cell_position (tl (dropWhile (\<lambda>x. x \<noteq> CHR '':'') body))) of
               (Some (c1, r1), Some (c2, r2)) \<Rightarrow>
                 concat (map (\<lambda>c. map (\<lambda>r. (sheet, column_letters c @ str_nat r))
                                       [min r1 r2 ..< Suc (max r1 r2)])
                             [min c1 c2 ..< Suc (max c1 c2)])
             | _ \<Rightarrow> [])
          else [(sheet, body)])"

definition decompress :: "string list \<Rightarrow> (string \<times> string) list" where
  "decompress ranges = concat (map range_cells ranges)"

text \<open>The locations as the compressor takes them.\<close>

definition locations :: "(string \<times> string) list \<Rightarrow> reference list" where
  "locations refs = map (\<lambda>sc. RefPair (fst sc) (snd sc)) refs"



text \<open>Modelled from the spec: a range expression is one axis-aligned run when it is a
  singleton, or when its two corners share the column letters or share the row
  number.\<close>

definition axis_aligned :: "string \<Rightarrow> bool" where
  "axis_aligned expr =
     (case split_last CHR ''!'' expr of
        None \<Rightarrow> False
      | Some (sheet, body) \<Rightarrow>
          if CHR '':'' \<in> set body then
            (case (cell_to_tuple (takeWhile (\<lambda>x. x \<noteq> CHR '':'') body),
                   cell_to_tuple (tl (dropWhile (\<lambda>x. x \<noteq> CHR '':'') body))) of
               (Inr (col1, row1), Inr (col2, row2)) \<Rightarrow> col1 = col2 \<or> row1 = row2
             | _ \<Rightarrow> False)
          else True)"



section \<open>Predicates of the statements\<close>




text \<open>The entry of the merged pattern table at the slot of a default: the custom pattern
  of the same name when there is one, the default otherwise.  The new names are the
  custom entries whose name is not a default's, in the order of the custom dictionary.\<close>

definition overridden :: "('k \<times> 'v) list \<Rightarrow> 'k \<times> 'v \<Rightarrow> 'k \<times> 'v" where
  "overridden custom kv = (case map_of custom (fst kv) of None \<Rightarrow> kv | Some v \<Rightarrow> (fst kv, v))"

definition new_names :: "('k \<times> 'v) list \<Rightarrow> ('k \<times> 'v) list \<Rightarrow> ('k \<times> 'v) list" where
  "new_names defaults custom = filter (\<lambda>kv. fst kv \<notin> fst ` set defaults) custom"

section \<open>The compressor's failure policy\<close>

lemma try_map_fallback_locations:
  "try_map fallback_item (locations refs) = Inr (map (\<lambda>sc. fst sc @ ''!'' @ snd sc) refs)"
  by (induction refs) (simp_all add: locations_def fallback_item_def ref_item0_def ref_item1_def)

lemma try_map_raises:
  "x \<in> set xs \<Longrightarrow> f x = Inl e \<Longrightarrow> \<exists>e'. try_map f xs = Inl e'"
  by (induction xs) (auto split: sum.splits)

lemma compress_try_raises_on_bad_key:
  assumes "r \<in> set rs" and "ref_key r = Inl e"
  shows "\<exists>e'. compress_try rs = Inl e'"
proof -
  from try_map_raises [of r rs ref_key e, OF assms] obtain e'
    where "try_map ref_key rs = Inl e'" ..
  then show ?thesis by (simp add: compress_try_def sorted_by_key_def)
qed

text \<open>
  Claim C5.  On every list of \<^verbatim>\<open>(sheet, cell)\<close> pairs \<^verbatim>\<open>compress_cell_references\<close>
  returns a list and raises nothing.  Whenever the body of its \<^verbatim>\<open>try\<close> block raises,
  and in particular whenever the sort key of some reference cannot be computed (a
  malformed coordinate), the result is one \<^verbatim>\<open>Sheet!Cell\<close> string per input pair, in the
  order of the input.
\<close>

theorem compress_failure_policy:
  "\<exists>out. compress_cell_references (locations refs) = Inr out \<and>
     (\<forall>e. compress_try (locations refs) = Inl e \<longrightarrow>
        out = map (\<lambda>sc. fst sc @ ''!'' @ snd sc) refs) \<and>
     ((\<exists>r \<in> set (locations refs). \<exists>e. ref_key r = Inl e) \<longrightarrow>
        out = map (\<lambda>sc. fst sc @ ''!'' @ snd sc) refs)"
proof (cases "compress_try (locations refs)")
  case (Inl e)
  then have nonempty: "locations refs \<noteq> []"
    by (auto simp: compress_try_def sorted_by_key_def)
  have "compress_cell_references (locations refs)
      = Inr (map (\<lambda>sc. fst sc @ ''!'' @ snd sc) refs)"
    using Inl nonempty by (simp add: compress_cell_references_def try_map_fallback_locations)
  then show ?thesis by simp
next
  case (Inr ranges)
  have no_bad: "\<not> (\<exists>r \<in> set (locations refs). \<exists>e. ref_key r = Inl e)"
    using compress_try_raises_on_bad_key Inr by fastforce
  have "compress_cell_references (locations refs) = Inr (if refs = [] then [] else ranges)"
    using Inr by (simp add: compress_cell_references_def locations_def)
  with Inr no_bad show ?thesis by simp
qed

text \<open>The policy at work: a column of four letters is no column, the sort raises, and the
  two references come back one by one.\<close>

theorem compress_failure_policy_witness:
  "compress_try (locations [(''S'', ''AAAA1''), (''S'', ''A2'')]) = Inl ValueError \<and>
   compress_cell_references (locations [(''S'', ''AAAA1''), (''S'', ''A2'')])
     = Inr [''S!AAAA1'', ''S!A2'']"
proof -
  have raised: "compress_try (locations [(''S'', ''AAAA1''), (''S'', ''A2'')]) = Inl ValueError"
    by code_simp
  from compress_failure_policy [of "[(''S'', ''AAAA1''), (''S'', ''A2'')]"] raised
  have "compress_cell_references (locations [(''S'', ''AAAA1''), (''S'', ''A2'')])
      = Inr (map (\<lambda>sc. fst sc @ ''!'' @ snd sc) [(''S'', ''AAAA1''), (''S'', ''A2'')])"
    by auto
  with raised show ?thesis by simp
qed

section \<open>A chain that turns a corner\<close>

text \<open>The cells A1, A2 and B2 of one sheet: A2 extends A1 downwards, B2 extends A2 to the
  right, and the open range is flushed as the one expression \<^verbatim>\<open>S!A1:B2\<close>.\<close>

lemma corner_chain_compressed:
  "compress_cell_references (locations [(''S'', ''A1''), (''S'', ''A2''), (''S'', ''B2'')])
     = Inr [''S!A1:B2'']"
  by code_simp

lemma corner_range_cells:
  "decompress [''S!A1:B2'']
     = [(''S'', ''A1''), (''S'', ''A2''), (''S'', ''B1''), (''S'', ''B2'')]"
  by code_simp

text \<open>
  Claim C1 (partition preservation) fails on the code.  For the input A1, A2, B2 the
  compressor returns \<^verbatim>\<open>S!A1:B2\<close>; the range covers four cells, B1 among them, so the
  multiset of cells the output stands for is not the multiset of the input.
\<close>

theorem corner_chain_covers_absent_cell:
  "compress_cell_references (locations [(''S'', ''A1''), (''S'', ''A2''), (''S'', ''B2'')])
     = Inr [''S!A1:B2''] \<and>
   decompress [''S!A1:B2'']
     = [(''S'', ''A1''), (''S'', ''A2''), (''S'', ''B1''), (''S'', ''B2'')] \<and>
   mset (decompress [''S!A1:B2'']) \<noteq> mset [(''S'', ''A1''), (''S'', ''A2''), (''S'', ''B2'')]"
proof -
  have "size (mset (decompress [''S!A1:B2'']))
      \<noteq> size (mset [(''S'', ''A1''), (''S'', ''A2''), (''S'', ''B2'')])"
    unfolding corner_range_cells by simp
  then have "mset (decompress [''S!A1:B2''])
      \<noteq> mset [(''S'', ''A1''), (''S'', ''A2''), (''S'', ''B2'')]"
    by metis
  with corner_chain_compressed corner_range_cells show ?thesis by simp
qed

text \<open>
  Claim C2 (every emitted range is one axis-aligned run) fails on the code.  For the
  same input the emitted range \<^verbatim>\<open>S!A1:B2\<close> has the corners A1 and B2, which differ in
  the column and in the row.
\<close>

theorem corner_chain_not_axis_aligned:
  "compress_cell_references (locations [(''S'', ''A1''), (''S'', ''A2''), (''S'', ''B2'')])
     = Inr [''S!A1:B2''] \<and>
   cell_to_tuple ''A1'' = Inr (''A'', 1) \<and> cell_to_tuple ''B2'' = Inr (''B'', 2) \<and>
   list_all axis_aligned [''S!A1:B2''] = False"
proof -
  have "cell_to_tuple ''A1'' = Inr (''A'', 1)" by code_simp
  moreover have "cell_to_tuple ''B2'' = Inr (''B'', 2)" by code_simp
  moreover have "list_all axis_aligned [''S!A1:B2''] = False" by code_simp
  ultimately show ?thesis using corner_chain_compressed by simp
qed

text \<open>
  Claim C8 (idempotent canonical form) fails on the code.  Decompressing the output
  \<^verbatim>\<open>S!A1:B2\<close> of the same input gives A1, A2, B1, B2, and compressing these gives the two
  column runs \<^verbatim>\<open>S!A1:A2\<close> and \<^verbatim>\<open>S!B1:B2\<close>, not the first output.
\<close>

theorem recompression_changes_output:
  "compress_cell_references (locations [(''S'', ''A1''), (''S'', ''A2''), (''S'', ''B2'')])
     = Inr [''S!A1:B2''] \<and>
   compress_cell_references (locations (decompress [''S!A1:B2'']))
     = Inr [''S!A1:A2'', ''S!B1:B2'']"
proof -
  have "compress_cell_references (locations (decompress [''S!A1:B2'']))
      = Inr [''S!A1:A2'', ''S!B1:B2'']"
    by code_simp
  with corner_chain_compressed show ?thesis by simp
qed

section \<open>Aggregation\<close>



section \<open>Literal-value categories\<close>















section \<open>Classifier precedence\<close>

lemma recognize_integer: "recognize_data_type default_config (PStr ''123'') = Inr ''[INTEGER]''"
  by code_simp

lemma recognize_float: "recognize_data_type default_config (PStr ''12.5'') = Inr ''[FLOAT]''"
  by code_simp

lemma recognize_percentage:
  "recognize_data_type default_config (PStr ''50%'') = Inr ''[PERCENTAGE]''"
  by code_simp

lemma recognize_year: "recognize_data_type default_config (PStr ''1999'') = Inr ''[YEAR]''"
  by code_simp

lemma recognize_date: "recognize_data_type default_config (PStr ''2024-01-15'') = Inr ''[DATE]''"
  by code_simp

lemma recognize_time: "recognize_data_type default_config (PStr ''14:30'') = Inr ''[TIME]''"
  by code_simp

lemma recognize_none: "recognize_data_type cfg PNone = Inr ''Empty''"
  by (simp add: recognize_data_type_def)

lemma strip_whitespace:
  assumes "list_all isspace ws"
  shows "strip ws = []"
proof -
  have "dropWhile isspace ws = []" using assms by (simp add: list_all_iff)
  then show ?thesis by (simp only: strip_def rev.simps dropWhile.simps)
qed

lemma recognize_blank: "list_all isspace ws \<Longrightarrow> recognize_data_type cfg (PStr ws) = Inr ''Empty''"
  by (simp add: recognize_data_type_def strip_whitespace)

text \<open>
  Claim C7.  On the default configuration the classifier gives \<^verbatim>\<open>[INTEGER]\<close> for
  \<^verbatim>\<open>123\<close>, \<^verbatim>\<open>[FLOAT]\<close> for \<^verbatim>\<open>12.5\<close>, \<^verbatim>\<open>[PERCENTAGE]\<close> for \<^verbatim>\<open>50%\<close>, \<^verbatim>\<open>[YEAR]\<close> for
  \<^verbatim>\<open>1999\<close>, \<^verbatim>\<open>[DATE]\<close> for \<^verbatim>\<open>2024-01-15\<close>, \<^verbatim>\<open>[TIME]\<close> for \<^verbatim>\<open>14:30\<close>, and \<^verbatim>\<open>Empty\<close> for
  \<^verbatim>\<open>None\<close>, for the empty string and for every string of whitespace.
\<close>

theorem classifier_precedence:
  assumes "list_all isspace ws"
  shows "recognize_data_type default_config (PStr ''123'') = Inr ''[INTEGER]'' \<and>
   recognize_data_type default_config (PStr ''12.5'') = Inr ''[FLOAT]'' \<and>
   recognize_data_type default_config (PStr ''50%'') = Inr ''[PERCENTAGE]'' \<and>
   recognize_data_type default_config (PStr ''1999'') = Inr ''[YEAR]'' \<and>
   recognize_data_type default_config (PStr ''2024-01-15'') = Inr ''[DATE]'' \<and>
   recognize_data_type default_config (PStr ''14:30'') = Inr ''[TIME]'' \<and>
   recognize_data_type default_config PNone = Inr ''Empty'' \<and>
   recognize_data_type default_config (PStr []) = Inr ''Empty'' \<and>
   recognize_data_type default_config (PStr ws) = Inr ''Empty''"
  using assms recognize_integer recognize_float recognize_percentage recognize_year
    recognize_date recognize_time
  by (simp add: recognize_none recognize_blank)

text \<open>The theorem at a string of a blank, a tab and a blank.\<close>

theorem classifier_precedence_witness:
  "list_all isspace [CHR '' '', CHR 0x09, CHR '' ''] \<and>
   recognize_data_type default_config (PStr [CHR '' '', CHR 0x09, CHR '' '']) = Inr ''Empty''"
proof -
  have ws: "list_all isspace [CHR '' '', CHR 0x09, CHR '' '']" by code_simp
  from classifier_precedence [OF ws] ws show ?thesis by simp
qed

section \<open>Classification returns\<close>







section \<open>The merged pattern table\<close>

lemma dict_set_present:
  "k \<in> fst ` set d \<Longrightarrow> distinct (map fst d) \<Longrightarrow>
   dict_set d k v = map (\<lambda>kv. if fst kv = k then (k, v) else kv) d"
proof (induction d)
  case Nil
  then show ?case by simp
next
  case (Cons a d)
  obtain k' v' where a: "a = (k', v')" by (cases a)
  show ?case
  proof (cases "k' = k")
    case True
    with Cons.prems(2) a have "k \<notin> fst ` set d" by auto
    then have "map (\<lambda>kv. if fst kv = k then (k, v) else kv) d = d"
      by (induction d) auto
    with True a show ?thesis by simp
  next
    case False
    with Cons a show ?thesis by auto
  qed
qed

lemma dict_set_absent: "k \<notin> fst ` set d \<Longrightarrow> dict_set d k v = d @ [(k, v)]"
  by (induction d) auto

lemma dict_merge_slots:
  "distinct (map fst d1) \<Longrightarrow> distinct (map fst d2) \<Longrightarrow>
   dict_merge d1 d2 = map (overridden d2) d1 @ new_names d1 d2"
proof (induction d2 arbitrary: d1)
  case Nil
  then show ?case by (simp add: dict_merge_def overridden_def new_names_def)
next
  case (Cons a d2)
  obtain k v where a: "a = (k, v)" by (cases a)
  from Cons.prems(2) a have fresh: "k \<notin> fst ` set d2" and d2: "distinct (map fst d2)" by auto
  have step: "dict_merge d1 (a # d2) = dict_merge (dict_set d1 k v) d2"
    by (simp add: dict_merge_def a)
  show ?case
  proof (cases "k \<in> fst ` set d1")
    case True
    let ?d = "map (\<lambda>kv. if fst kv = k then (k, v) else kv) d1"
    have set: "dict_set d1 k v = ?d" using True Cons.prems(1) by (rule dict_set_present)
    have keys: "map fst ?d = map fst d1" by (induction d1) auto
    have dist: "distinct (map fst ?d)" unfolding keys by (rule Cons.prems(1))
    have noentry: "map_of d2 k = None" using fresh by (simp add: map_of_eq_None_iff)
    have "map (overridden d2) ?d = map (overridden (a # d2)) d1"
      using noentry by (induction d1) (auto simp: overridden_def a)
    moreover have "new_names ?d d2 = new_names d1 (a # d2)"
    proof -
      have "fst ` set ?d = fst ` set d1" using keys by (metis set_map)
      with True show ?thesis by (simp add: new_names_def a)
    qed
    ultimately show ?thesis using Cons.IH [OF dist d2] step set by simp
  next
    case False
    have set: "dict_set d1 k v = d1 @ [(k, v)]" using False by (rule dict_set_absent)
    have dist: "distinct (map fst (d1 @ [(k, v)]))" using False Cons.prems(1) by auto
    have noentry: "map_of d2 k = None" using fresh by (simp add: map_of_eq_None_iff)
    have "map (overridden d2) (d1 @ [(k, v)]) = map (overridden (a # d2)) d1 @ [(k, v)]"
      using False noentry by (auto simp: overridden_def a)
    moreover have "new_names (d1 @ [(k, v)]) d2 = new_names d1 d2"
      using fresh by (auto simp: new_names_def intro!: filter_cong)
    moreover have "new_names d1 (a # d2) = (k, v) # new_names d1 d2"
      using False by (simp add: new_names_def a)
    ultimately show ?thesis using Cons.IH [OF dist d2] step set by simp
  qed
qed

lemma default_names:
  "map fst default_patterns =
     [''url'', ''year'', ''integer'', ''percentage'', ''scientific'', ''float'', ''currency'', ''email'']"
  by (simp add: default_patterns_def)

text \<open>
  Claim C10.  When the custom patterns are merged over the defaults, the table keeps the
  iteration order of the defaults (url, year, integer, percentage, scientific, float,
  currency, email); a custom pattern with the name of a default stands at the slot of
  that default, and the custom patterns with new names follow all the defaults, in
  their own order.
\<close>

theorem override_keeps_slot:
  assumes "distinct (map fst custom_patterns)"
  shows "patterns (init (Some custom_patterns) d t)
           = map (overridden custom_patterns) default_patterns
             @ new_names default_patterns custom_patterns
       \<and> map fst (patterns (init (Some custom_patterns) d t))
           = [''url'', ''year'', ''integer'', ''percentage'', ''scientific'', ''float'',
              ''currency'', ''email'']
             @ map fst (new_names default_patterns custom_patterns)"
proof -
  have dd: "distinct (map fst default_patterns)" by (simp add: default_names)
  have "or_default (Some custom_patterns) [] = custom_patterns"
    by (simp add: or_default_def)
  then have merged: "patterns (init (Some custom_patterns) d t)
      = map (overridden custom_patterns) default_patterns
        @ new_names default_patterns custom_patterns"
    using dict_merge_slots [OF dd assms] by (simp add: init_def)
  have "map fst (map (overridden custom_patterns) default_patterns) = map fst default_patterns"
    by (simp add: overridden_def comp_def split: option.splits)
  with merged show ?thesis by (simp add: default_names)
qed

text \<open>The theorem at a custom dictionary that overrides \<^verbatim>\<open>percentage\<close> with \<^verbatim>\<open>\d+\<close> and
  adds \<^verbatim>\<open>code\<close>: the custom pattern is tried at the fourth slot, before \<^verbatim>\<open>float\<close>, so
  \<^verbatim>\<open>12.5\<close> is a \<^verbatim>\<open>[PERCENTAGE]\<close>.\<close>

theorem override_keeps_slot_witness:
  "distinct (map fst [(''percentage'', Compiled (Plus digit)), (''code'', Compiled (Plus (Cls letter_ranges)))]) \<and>
   map fst (patterns (init (Some [(''percentage'', Compiled (Plus digit)),
                                  (''code'', Compiled (Plus (Cls letter_ranges)))]) None None))
     = [''url'', ''year'', ''integer'', ''percentage'', ''scientific'', ''float'',
        ''currency'', ''email'', ''code''] \<and>
   map_of (patterns (init (Some [(''percentage'', Compiled (Plus digit)),
                                 (''code'', Compiled (Plus (Cls letter_ranges)))]) None None))
     ''percentage'' = Some (Compiled (Plus digit)) \<and>
   recognize_data_type (init (Some [(''percentage'', Compiled (Plus digit)),
                                    (''code'', Compiled (Plus (Cls letter_ranges)))]) None None)
     (PStr ''12.5'') = Inr ''[PERCENTAGE]''"
proof -
  let ?custom = "[(''percentage'', Compiled (Plus digit)), (''code'', Compiled (Plus (Cls letter_ranges)))]"
  have dist: "distinct (map fst ?custom)" by simp
  have new: "new_names default_patterns ?custom = [(''code'', Compiled (Plus (Cls letter_ranges)))]"
    by code_simp
  have ov: "map (overridden ?custom) default_patterns =
     [(''url'', Compiled url_regex), (''year'', Compiled year_regex),
      (''integer'', Compiled integer_regex), (''percentage'', Compiled (Plus digit)),
      (''scientific'', Compiled scientific_regex), (''float'', Compiled float_regex),
      (''currency'', Compiled currency_regex), (''email'', Compiled email_regex)]"
    by (simp add: default_patterns_def overridden_def)
  have r: "recognize_data_type (init (Some ?custom) None None) (PStr ''12.5'') = Inr ''[PERCENTAGE]''"
    by code_simp
  from override_keeps_slot [OF dist, of None None] new ov r dist show ?thesis by simp
qed

section \<open>Further properties\<close>

text \<open>The fixtures of section 8 of the specification: a vertical run, a horizontal run,
  a gap, two sheets, and the empty list.\<close>

theorem compressor_fixtures:
  "compress_cell_references (locations [(''S1'', ''A1''), (''S1'', ''A2''), (''S1'', ''A3'')])
     = Inr [''S1!A1:A3''] \<and>
   compress_cell_references (locations [(''S1'', ''A1''), (''S1'', ''B1''), (''S1'', ''C1'')])
     = Inr [''S1!A1:C1''] \<and>
   compress_cell_references (locations [(''S1'', ''A1''), (''S1'', ''A3'')])
     = Inr [''S1!A1'', ''S1!A3''] \<and>
   compress_cell_references (locations [(''S1'', ''A1''), (''S2'', ''A2'')])
     = Inr [''S1!A1'', ''S2!A2''] \<and>
   compress_cell_references (locations []) = Inr []"
proof -
  have "compress_cell_references (locations [(''S1'', ''A1''), (''S1'', ''A2''), (''S1'', ''A3'')])
     = Inr [''S1!A1:A3'']"
    by code_simp
  moreover have "compress_cell_references
       (locations [(''S1'', ''A1''), (''S1'', ''B1''), (''S1'', ''C1'')]) = Inr [''S1!A1:C1'']"
    by code_simp
  moreover have "compress_cell_references (locations [(''S1'', ''A1''), (''S1'', ''A3'')])
     = Inr [''S1!A1'', ''S1!A3'']"
    by code_simp
  moreover have "compress_cell_references (locations [(''S1'', ''A1''), (''S2'', ''A2'')])
     = Inr [''S1!A1'', ''S2!A2'']"
    by code_simp
  moreover have "compress_cell_references (locations []) = Inr []"
    by (simp add: compress_cell_references_def locations_def)
  ultimately show ?thesis by simp
qed

text \<open>An empty custom dictionary or list is falsy, so \<^verbatim>\<open>__init__\<close> keeps the defaults for
  it, as it does for \<^verbatim>\<open>None\<close>.\<close>

theorem empty_custom_keeps_defaults:
  "init (Some []) (Some []) (Some []) = default_config"
  by (simp add: init_def default_config_def or_default_def)

end
